theory Spec2Isabelle
  imports Main "HOL-Library.AList" "HOL-Library.Sublist"
begin

section \<open>Data model of bot.py\<close>

text \<open>
  Python exceptions that the calls of \<^verbatim>\<open>bot.py\<close> can meet. Every exception of the
  \<^verbatim>\<open>requests\<close> library derives from \<^verbatim>\<open>requests.RequestException\<close>; the kind only
  records which subclass it was. \<^verbatim>\<open>MarkupError\<close> is what \<^verbatim>\<open>rich\<close> raises on console
  markup it cannot parse, such as a closing tag that matches no open tag.
\<close>

datatype request_error = ConnectionError | Timeout | OtherRequestError

datatype exn =
    RequestException request_error
  | JSONDecodeError
  | GitCommandError
  | MarkupError
  | TypeError
  | ValueError
  | KeyboardInterrupt
  | OtherException string

text \<open>
  What \<^verbatim>\<open>requests.head(remote_url, timeout=3)\<close> does: it returns a response carrying
  an HTTP status code, or it raises.
\<close>

datatype probe_outcome = Responded nat | ProbeRaised exn

text \<open>One entry of \<^verbatim>\<open>.devbot_queue.json\<close>: a dict with the three keys the code writes.\<close>

record queue_record =
  message :: string
  files :: "string list"
  timestamp :: string

text \<open>
  The calls made on the GitPython objects: \<^verbatim>\<open>repo.remote(name=...)\<close>,
  \<^verbatim>\<open>repo.index.add(files)\<close>, \<^verbatim>\<open>repo.index.commit(msg)\<close>, \<^verbatim>\<open>origin.push()\<close> and
  \<^verbatim>\<open>repo.git.fetch()\<close>. A call is logged with its outcome: \<open>None\<close> when it returned,
  \<open>Some e\<close> when it raised \<open>e\<close>. A push that returns counts as made, whatever the
  remote answered: the code never reads the result of \<^verbatim>\<open>origin.push()\<close>.
\<close>

datatype vc_op = Remote string | Add "string list" | Commit string | Push | Fetch

type_synonym vc_call = "vc_op \<times> exn option"

text \<open>The lines written by \<^verbatim>\<open>console.print\<close>, one constructor per format string.\<close>

datatype event =
    CommitQueued string
  | PushedQueued string string
  | CommittedPushed string string
  | CouldNotPush
  | FetchFailed
  | AllPushed
  | StagedNotCommitted "string list"
  | CommitsNotPushed "string list"
  | QueuedOffline "string list"

text \<open>
  The state the functions read and write: the content of the queue file (\<open>None\<close> when
  the file does not exist), the calls made on the repository so far, oldest first, and
  the console output so far.
\<close>

record 'f world =
  queue_file :: "'f option"
  vc_log :: "vc_call list"
  console :: "event list"

text \<open>
  What the code takes from outside the repository: \<^verbatim>\<open>json.dump\<close> and \<^verbatim>\<open>json.load\<close>
  on the queue file (\<open>'f\<close> is the type of file contents; \<open>json_load\<close> gives \<open>None\<close>
  where Python raises \<^verbatim>\<open>JSONDecodeError\<close>), the answer of the repository to a call,
  given the calls made before it, and the answer of \<^verbatim>\<open>rich\<close> to a line whose markup
  string is an f-string: \<open>None\<close> when the line is rendered, \<open>Some e\<close> when rendering
  raises \<open>e\<close>. The lines of \<^verbatim>\<open>bot.py\<close> interpolate commit messages, timestamps and
  file paths into the markup unescaped, so a message such as \<^verbatim>\<open>fix [/b] tag\<close> makes
  \<^verbatim>\<open>console.print\<close> raise \<^verbatim>\<open>MarkupError\<close>.
\<close>

record 'f env =
  json_dump :: "queue_record list \<Rightarrow> 'f"
  json_load :: "'f \<Rightarrow> queue_record list option"
  git :: "vc_call list \<Rightarrow> vc_op \<Rightarrow> exn option"
  rich :: "event \<Rightarrow> exn option"

text \<open>How a statement ends: it returns, or it raises and the state reached so far stays.\<close>

datatype outcome = Returned | Raised exn

definition then_do ::
  "outcome \<times> 'f world \<Rightarrow> ('f world \<Rightarrow> outcome \<times> 'f world) \<Rightarrow> outcome \<times> 'f world" where
  "then_do r k = (case r of (Returned, w) \<Rightarrow> k w | (Raised e, w) \<Rightarrow> (Raised e, w))"

definition try_except ::
  "outcome \<times> 'f world \<Rightarrow> ('f world \<Rightarrow> outcome \<times> 'f world) \<Rightarrow> outcome \<times> 'f world" where
  "try_except r handler = (case r of (Returned, w) \<Rightarrow> (Returned, w) | (Raised e, w) \<Rightarrow> handler w)"

text \<open>A rendered line reaches the console.\<close>

definition emit :: "event \<Rightarrow> 'f world \<Rightarrow> 'f world" where
  "emit ev w = w\<lparr>console := console w @ [ev]\<rparr>"

text \<open>
  \<^verbatim>\<open>console.print\<close>. The three lines whose markup is a string literal of the source are
  well formed and always rendered; every other line is rendered or raises, as \<^verbatim>\<open>rich\<close>
  decides, and a line that raises is not written.
\<close>

fun literal_markup :: "event \<Rightarrow> bool" where
  "literal_markup CouldNotPush = True"
| "literal_markup FetchFailed = True"
| "literal_markup AllPushed = True"
| "literal_markup ev = False"

definition console_print :: "'f env \<Rightarrow> event \<Rightarrow> 'f world \<Rightarrow> outcome \<times> 'f world" where
  "console_print E ev w =
     (if literal_markup ev then (Returned, emit ev w)
      else (case rich E ev of
              None \<Rightarrow> (Returned, emit ev w)
            | Some e \<Rightarrow> (Raised e, w)))"

definition git_do :: "'f env \<Rightarrow> vc_op \<Rightarrow> 'f world \<Rightarrow> outcome \<times> 'f world" where
  "git_do E op w =
     (case git E (vc_log w) op of
        None \<Rightarrow> (Returned, w\<lparr>vc_log := vc_log w @ [(op, None)]\<rparr>)
      | Some e \<Rightarrow> (Raised e, w\<lparr>vc_log := vc_log w @ [(op, Some e)]\<rparr>))"

section \<open>The functions of bot.py\<close>

text \<open>
  \<^verbatim>\<open>is_online\<close>: \<open>True\<close> when \<^verbatim>\<open>requests.head\<close> returns, whatever the response;
  \<open>False\<close> when it raises a \<^verbatim>\<open>requests.RequestException\<close>; any other exception is not
  caught by the \<^verbatim>\<open>except\<close> clause.
\<close>

fun is_online :: "probe_outcome \<Rightarrow> exn + bool" where
  "is_online (Responded status) = Inr True"
| "is_online (ProbeRaised (RequestException k)) = Inr False"
| "is_online (ProbeRaised e) = Inl e"

definition load_queue :: "'f env \<Rightarrow> 'f world \<Rightarrow> exn + queue_record list" where
  "load_queue E w =
     (case queue_file w of
        Some content \<Rightarrow>
          (case json_load E content of
             None \<Rightarrow> Inl JSONDecodeError
           | Some queue \<Rightarrow> Inr queue)
      | None \<Rightarrow> Inr [])"

definition save_queue :: "'f env \<Rightarrow> queue_record list \<Rightarrow> 'f world \<Rightarrow> 'f world" where
  "save_queue E queue w = w\<lparr>queue_file := Some (json_dump E queue)\<rparr>"

text \<open>
  \<open>now fmt\<close> stands for \<^verbatim>\<open>datetime.now().strftime(fmt)\<close>.
\<close>

definition queue_commit ::
  "'f env \<Rightarrow> (string \<Rightarrow> string) \<Rightarrow> string \<Rightarrow> string list \<Rightarrow> 'f world \<Rightarrow> outcome \<times> 'f world" where
  "queue_commit E now commit_msg fs w =
     (case load_queue E w of
        Inl e \<Rightarrow> (Raised e, w)
      | Inr queue \<Rightarrow>
          console_print E (CommitQueued commit_msg)
            (save_queue E
               (queue @ [\<lparr>message = commit_msg, files = fs,
                          timestamp = now ''%Y-%m-%d %H:%M:%S''\<rparr>]) w))"

text \<open>The body of the \<^verbatim>\<open>for item in queue\<close> loop of \<^verbatim>\<open>push_queue\<close>, and the loop.\<close>

fun drain_loop :: "'f env \<Rightarrow> queue_record list \<Rightarrow> 'f world \<Rightarrow> outcome \<times> 'f world" where
  "drain_loop E [] w = (Returned, w)"
| "drain_loop E (item # rest) w =
     then_do (git_do E (Add (files item)) w) (\<lambda>w1.
     then_do (git_do E (Commit (message item)) w1) (\<lambda>w2.
     then_do (git_do E Push w2) (\<lambda>w3.
     then_do (console_print E (PushedQueued (timestamp item) (message item)) w3) (\<lambda>w4.
     drain_loop E rest w4))))"

definition push_queue :: "'f env \<Rightarrow> probe_outcome \<Rightarrow> 'f world \<Rightarrow> outcome \<times> 'f world" where
  "push_queue E probe w =
     (case load_queue E w of
        Inl e \<Rightarrow> (Raised e, w)
      | Inr queue \<Rightarrow>
          if queue = [] then (Returned, w)
          else (case is_online probe of
                  Inl e \<Rightarrow> (Raised e, w)
                | Inr online \<Rightarrow>
                    if \<not> online then (Returned, w)
                    else
                      then_do (git_do E (Remote ''origin'') w) (\<lambda>w1.
                      then_do (drain_loop E queue w1) (\<lambda>w2.
                      (Returned, save_queue E [] w2)))))"

definition commit_and_push ::
  "'f env \<Rightarrow> probe_outcome \<Rightarrow> (string \<Rightarrow> string) \<Rightarrow> string \<Rightarrow> string list \<Rightarrow> 'f world
     \<Rightarrow> outcome \<times> 'f world" where
  "commit_and_push E probe now commit_msg fs w =
     (case is_online probe of
        Inl e \<Rightarrow> (Raised e, w)
      | Inr online \<Rightarrow>
          if online then
            then_do (git_do E (Add fs) w) (\<lambda>w1.
            then_do (git_do E (Commit commit_msg) w1) (\<lambda>w2.
            try_except
              (then_do (git_do E (Remote ''origin'') w2) (\<lambda>w3.
               then_do (git_do E Push w3) (\<lambda>w4.
               console_print E (CommittedPushed (now ''%H:%M:%S'') commit_msg) w4)))
              (\<lambda>w5.
               then_do (console_print E CouldNotPush w5) (\<lambda>w6.
               queue_commit E now commit_msg fs w6))))
          else queue_commit E now commit_msg fs w)"

text \<open>
  What the read-only calls of \<^verbatim>\<open>check_push_status\<close> see once the fetch has returned:
  whether \<^verbatim>\<open>HEAD\<close> is detached (\<^verbatim>\<open>repo.active_branch\<close> then raises \<^verbatim>\<open>TypeError\<close>),
  the hexshas of the commits reachable from the active branch and from its
  remote-tracking branch, newest first (\<open>None\<close> when the name resolves to no commit),
  and the paths of \<^verbatim>\<open>repo.index.diff(None)\<close>.
\<close>

record repo_view =
  head_detached :: bool
  branch_commits :: "string list option"
  tracking_commits :: "string list option"
  index_diff :: "string list"

datatype rev = ActiveBranch | OriginBranch

fun commits_of :: "repo_view \<Rightarrow> rev \<Rightarrow> string list option" where
  "commits_of R ActiveBranch = branch_commits R"
| "commits_of R OriginBranch = tracking_commits R"

text \<open>
  \<^verbatim>\<open>repo.iter_commits('a..b')\<close>: the commits reachable from \<open>b\<close> that are not reachable
  from \<open>a\<close>; \<^verbatim>\<open>GitCommandError\<close> when one of the two names resolves to no commit.
\<close>

definition iter_commits :: "repo_view \<Rightarrow> rev \<Rightarrow> rev \<Rightarrow> exn + string list" where
  "iter_commits R a b =
     (case commits_of R a of
        None \<Rightarrow> Inl GitCommandError
      | Some excluded \<Rightarrow>
          (case commits_of R b of
             None \<Rightarrow> Inl GitCommandError
           | Some included \<Rightarrow> Inr (filter (\<lambda>c. c \<notin> set excluded) included)))"

definition print_when :: "bool \<Rightarrow> 'f env \<Rightarrow> event \<Rightarrow> 'f world \<Rightarrow> outcome \<times> 'f world" where
  "print_when b E ev w = (if b then console_print E ev w else (Returned, w))"

definition check_push_status :: "'f env \<Rightarrow> repo_view \<Rightarrow> 'f world \<Rightarrow> outcome \<times> 'f world" where
  "check_push_status E R w =
     then_do (git_do E (Remote ''origin'') w) (\<lambda>w1.
       case git_do E Fetch w1 of
         (Raised e, w2) \<Rightarrow> console_print E FetchFailed w2
       | (Returned, w2) \<Rightarrow>
           if head_detached R then (Raised TypeError, w2)
           else
             (case iter_commits R ActiveBranch OriginBranch of
                Inl e \<Rightarrow> (Raised e, w2)
              | Inr unpushed \<Rightarrow>
                  (case load_queue E w2 of
                     Inl e \<Rightarrow> (Raised e, w2)
                   | Inr queued \<Rightarrow>
                       (let staged = index_diff R in
                        if unpushed = [] \<and> queued = [] \<and> staged = []
                        then console_print E AllPushed w2
                        else
                          then_do (print_when (staged \<noteq> []) E (StagedNotCommitted staged) w2) (\<lambda>w3.
                          then_do (print_when (unpushed \<noteq> []) E
                                     (CommitsNotPushed (map (take 7) unpushed)) w3) (\<lambda>w4.
                          print_when (queued \<noteq> []) E (QueuedOffline (map message queued)) w4))))))"

section \<open>The script add_project.py\<close>

text \<open>
  The registry file \<^verbatim>\<open>.devbot_projects.json\<close>: a dict of project names to paths, in
  insertion order, and a default project (\<open>None\<close> for JSON \<^verbatim>\<open>null\<close>).
\<close>

record registry =
  projects :: "(string \<times> string) list"
  default_project :: "string option"

record 'g registry_codec =
  registry_dump :: "registry \<Rightarrow> 'g"
  registry_load :: "'g \<Rightarrow> registry option"

text \<open>
  Text is a list of characters with code points below 256. \<^verbatim>\<open>str.strip()\<close> removes
  the characters for which \<^verbatim>\<open>str.isspace()\<close> holds: tab, line feed, vertical tab,
  form feed, carriage return, the four separators \<^verbatim>\<open>0x1c\<close> to \<^verbatim>\<open>0x1f\<close>, space, next
  line \<^verbatim>\<open>0x85\<close> and no-break space \<^verbatim>\<open>0xa0\<close>. \<^verbatim>\<open>str.lower()\<close> lowers the letters
  \<^verbatim>\<open>A\<close> to \<^verbatim>\<open>Z\<close> and the capital letters \<^verbatim>\<open>0xc0\<close> to \<^verbatim>\<open>0xde\<close> other than the
  multiplication sign \<^verbatim>\<open>0xd7\<close>.
\<close>

definition is_space :: "char \<Rightarrow> bool" where
  "is_space c =
     (let n = (of_char c :: nat)
      in (9 \<le> n \<and> n \<le> 13) \<or> (28 \<le> n \<and> n \<le> 32) \<or> n = 133 \<or> n = 160)"

definition strip :: "string \<Rightarrow> string" where
  "strip s = rev (dropWhile is_space (rev (dropWhile is_space s)))"

definition lower_char :: "char \<Rightarrow> char" where
  "lower_char c =
     (let n = (of_char c :: nat)
      in if (65 \<le> n \<and> n \<le> 90) \<or> (192 \<le> n \<and> n \<le> 222 \<and> n \<noteq> 215)
         then char_of (n + 32) else c)"

definition lower :: "string \<Rightarrow> string" where
  "lower s = map lower_char s"

datatype notice = ProjectAdded string

text \<open>
  The script, from the three lines typed at its prompts and the content of the registry
  file (\<open>None\<close> when it does not exist) to the content written and the line printed.
\<close>

definition add_project ::
  "'g registry_codec \<Rightarrow> string \<Rightarrow> string \<Rightarrow> string \<Rightarrow> 'g option \<Rightarrow> exn + ('g \<times> notice)" where
  "add_project P name_typed path_typed answer_typed file =
     (case (case file of
              Some content \<Rightarrow>
                (case registry_load P content of
                   None \<Rightarrow> Inl JSONDecodeError
                 | Some d \<Rightarrow> Inr d)
            | None \<Rightarrow> Inr \<lparr>projects = [], default_project = None\<rparr>) of
        Inl e \<Rightarrow> Inl e
      | Inr data \<Rightarrow>
          (let name = strip name_typed;
               path = strip path_typed;
               data1 = data\<lparr>projects := AList.update name path (projects data)\<rparr>;
               set_default = lower (strip answer_typed);
               data2 = (if set_default = ''y'' then data1\<lparr>default_project := Some name\<rparr>
                        else data1)
           in Inr (registry_dump P data2, ProjectAdded name)))"

section \<open>Scenarios and sample environments\<close>

text \<open>
  Dispatches made one after the other, each by a run of its own: each request carries
  the outcome of its connectivity probe, its clock, the commit message and the selected
  files. A run that ends with an exception leaves the state it reached to the next run.
\<close>

type_synonym request = "probe_outcome \<times> (string \<Rightarrow> string) \<times> string \<times> string list"

fun dispatch_all :: "'f env \<Rightarrow> request list \<Rightarrow> 'f world \<Rightarrow> 'f world" where
  "dispatch_all E [] w = w"
| "dispatch_all E ((probe, now, commit_msg, fs) # rest) w =
     dispatch_all E rest (snd (commit_and_push E probe now commit_msg fs w))"

text \<open>The record that \<^verbatim>\<open>queue_commit\<close> builds for a request.\<close>

fun record_of :: "request \<Rightarrow> queue_record" where
  "record_of (probe, now, commit_msg, fs) =
     \<lparr>message = commit_msg, files = fs, timestamp = now ''%Y-%m-%d %H:%M:%S''\<rparr>"


text \<open>
  Sample environments: a codec that stores the queue itself, a repository where every
  call succeeds, one where one given call always fails and one where the second push
  fails; a console that renders every line, and one that raises \<^verbatim>\<open>MarkupError\<close> on the
  lines listed.
\<close>

definition always_ok :: "vc_call list \<Rightarrow> vc_op \<Rightarrow> exn option" where
  "always_ok calls op = None"

definition failing :: "vc_op \<Rightarrow> exn \<Rightarrow> vc_call list \<Rightarrow> vc_op \<Rightarrow> exn option" where
  "failing bad e calls op = (if op = bad then Some e else None)"

definition second_push_fails :: "vc_call list \<Rightarrow> vc_op \<Rightarrow> exn option" where
  "second_push_fails calls op =
     (if op = Push \<and> (Push, None) \<in> set calls then Some GitCommandError else None)"

definition rejecting :: "event list \<Rightarrow> event \<Rightarrow> exn option" where
  "rejecting bad ev = (if ev \<in> set bad then Some MarkupError else None)"

definition plain_env :: "(vc_call list \<Rightarrow> vc_op \<Rightarrow> exn option) \<Rightarrow> (queue_record list) env" where
  "plain_env g = \<lparr>json_dump = (\<lambda>queue. queue), json_load = Some, git = g, rich = (\<lambda>ev. None)\<rparr>"

definition markup_env ::
  "(vc_call list \<Rightarrow> vc_op \<Rightarrow> exn option) \<Rightarrow> event list \<Rightarrow> (queue_record list) env" where
  "markup_env g bad = \<lparr>json_dump = (\<lambda>queue. queue), json_load = Some, git = g, rich = rejecting bad\<rparr>"

definition plain_registry :: "registry registry_codec" where
  "plain_registry = \<lparr>registry_dump = (\<lambda>d. d), registry_load = Some\<rparr>"

definition rec_A :: queue_record where
  "rec_A = \<lparr>message = ''A'', files = [''x.py''], timestamp = ''2024-05-01 09:00:00''\<rparr>"

definition rec_B :: queue_record where
  "rec_B = \<lparr>message = ''B'', files = [''y.py''], timestamp = ''2024-05-01 09:05:00''\<rparr>"

definition clock_A :: "string \<Rightarrow> string" where
  "clock_A fmt = (if fmt = ''%H:%M:%S'' then ''09:00:00'' else ''2024-05-01 09:00:00'')"

definition clock_B :: "string \<Rightarrow> string" where
  "clock_B fmt = (if fmt = ''%H:%M:%S'' then ''09:05:00'' else ''2024-05-01 09:05:00'')"

definition fresh_world :: "'f option \<Rightarrow> 'f world" where
  "fresh_world file = \<lparr>queue_file = file, vc_log = [], console = []\<rparr>"

section \<open>Basic facts\<close>

lemma then_do_Returned [simp]: "then_do (Returned, w) k = k w"
  by (simp add: then_do_def)

lemma then_do_Raised [simp]: "then_do (Raised e, w) k = (Raised e, w)"
  by (simp add: then_do_def)

lemma try_except_Returned [simp]: "try_except (Returned, w) h = (Returned, w)"
  by (simp add: try_except_def)

lemma try_except_Raised [simp]: "try_except (Raised e, w) h = h w"
  by (simp add: try_except_def)

lemma emit_fields [simp]:
  "queue_file (emit ev w) = queue_file w"
  "vc_log (emit ev w) = vc_log w"
  "console (emit ev w) = console w @ [ev]"
  by (simp_all add: emit_def)

lemma save_queue_fields [simp]:
  "queue_file (save_queue E queue w) = Some (json_dump E queue)"
  "vc_log (save_queue E queue w) = vc_log w"
  "console (save_queue E queue w) = console w"
  by (simp_all add: save_queue_def)

lemma git_do_ok:
  "git E (vc_log w) op = None \<Longrightarrow> git_do E op w = (Returned, w\<lparr>vc_log := vc_log w @ [(op, None)]\<rparr>)"
  by (simp add: git_do_def)

lemma git_do_raises:
  "git E (vc_log w) op = Some e \<Longrightarrow> git_do E op w = (Raised e, w\<lparr>vc_log := vc_log w @ [(op, Some e)]\<rparr>)"
  by (simp add: git_do_def)

lemma git_do_frame:
  "git_do E op w = (r, w') \<Longrightarrow> queue_file w' = queue_file w \<and> console w' = console w"
  by (auto simp: git_do_def split: option.splits)

lemma load_queue_cong:
  "queue_file w' = queue_file w \<Longrightarrow> load_queue E w' = load_queue E w"
  by (simp add: load_queue_def)

lemma console_print_cases:
  obtains "console_print E ev w = (Returned, emit ev w)"
  | e where "console_print E ev w = (Raised e, w)" "rich E ev = Some e" "\<not> literal_markup ev"
  by (cases "literal_markup ev"; cases "rich E ev") (auto simp: console_print_def)


lemma console_print_frame:
  "console_print E ev w = (r, w') \<Longrightarrow> queue_file w' = queue_file w \<and> vc_log w' = vc_log w"
  by (cases rule: console_print_cases [of E ev w]) auto

section \<open>Connectivity prober\<close>

text \<open>
  C4 (as amended). \<^verbatim>\<open>is_online\<close> returns \<open>False\<close> whenever the probe raises a
  \<^verbatim>\<open>requests.RequestException\<close> (a network error, a timeout); it returns \<open>True\<close> whenever
  the endpoint answers at all, whatever the HTTP status of the answer; and it raises
  exactly when the probe raises an exception outside the \<^verbatim>\<open>RequestException\<close> hierarchy.
\<close>

theorem is_online_results:
  "is_online (ProbeRaised (RequestException k)) = Inr False
   \<and> is_online (Responded status) = Inr True
   \<and> ((\<exists>e. is_online probe = Inl e) \<longleftrightarrow>
        (\<exists>e. probe = ProbeRaised e \<and> (\<forall>k'. e \<noteq> RequestException k')))"
proof -
  have "(\<exists>e. is_online probe = Inl e) \<longleftrightarrow>
        (\<exists>e. probe = ProbeRaised e \<and> (\<forall>k'. e \<noteq> RequestException k'))"
  proof (cases probe)
    case (Responded s)
    then show ?thesis by simp
  next
    case (ProbeRaised e)
    then show ?thesis by (cases e) simp_all
  qed
  then show ?thesis by simp
qed

theorem is_online_results_witness:
  "is_online (ProbeRaised (RequestException Timeout)) = Inr False
   \<and> is_online (Responded 404) = Inr True
   \<and> (\<exists>e. is_online (ProbeRaised KeyboardInterrupt) = Inl e)"
  using is_online_results [of Timeout 404 "ProbeRaised KeyboardInterrupt"] by simp

text \<open>
  The claim as stated fails: an endpoint that answers with the non-success status 503
  makes \<^verbatim>\<open>requests.head\<close> return, and \<^verbatim>\<open>is_online\<close> answers \<open>True\<close>.
\<close>

theorem is_online_non_success_counterexample:
  "is_online (Responded 503) = Inr True \<and> is_online (Responded 503) \<noteq> Inr False"
  by simp

section \<open>Queue drainer: the no-op paths\<close>

text \<open>
  C7. When the loaded queue is empty, or \<^verbatim>\<open>is_online()\<close> is false, \<^verbatim>\<open>push_queue\<close>
  returns at once: the whole state is as before, so no call was made on the repository,
  the queue file was not rewritten and nothing was printed.
\<close>

theorem push_queue_noop:
  assumes "load_queue E w = Inr queue"
    and "queue = [] \<or> is_online probe = Inr False"
  shows "push_queue E probe w = (Returned, w)"
  using assms by (auto simp: push_queue_def)

theorem push_queue_noop_witness:
  "push_queue (plain_env always_ok) (Responded 200) (fresh_world (Some [])) =
     (Returned, fresh_world (Some []))
   \<and> push_queue (plain_env always_ok) (ProbeRaised (RequestException ConnectionError))
        (fresh_world (Some [rec_A])) = (Returned, fresh_world (Some [rec_A]))"
  using push_queue_noop [of "plain_env always_ok" "fresh_world (Some [])" "[]" "Responded 200"]
    push_queue_noop [of "plain_env always_ok" "fresh_world (Some [rec_A])" "[rec_A]"
      "ProbeRaised (RequestException ConnectionError)"]
  by (simp add: load_queue_def plain_env_def fresh_world_def)

section \<open>Queue drainer: a failed drain\<close>

text \<open>The loop never writes the queue file, and it runs a queue front to back.\<close>

lemma drain_loop_frame:
  "drain_loop E queue w = (r, w') \<Longrightarrow> queue_file w' = queue_file w"
proof (induction queue arbitrary: w)
  case Nil
  then show ?case by simp
next
  case (Cons item rest)
  obtain r1 w1 where a: "git_do E (Add (files item)) w = (r1, w1)"
    by (cases "git_do E (Add (files item)) w")
  obtain r2 w2 where c: "git_do E (Commit (message item)) w1 = (r2, w2)"
    by (cases "git_do E (Commit (message item)) w1")
  obtain r3 w3 where p: "git_do E Push w2 = (r3, w3)"
    by (cases "git_do E Push w2")
  obtain r4 w4 where q: "console_print E (PushedQueued (timestamp item) (message item)) w3 = (r4, w4)"
    by (cases "console_print E (PushedQueued (timestamp item) (message item)) w3")
  have f1: "queue_file w1 = queue_file w" using git_do_frame [OF a] by simp
  have f2: "queue_file w2 = queue_file w" using git_do_frame [OF c] f1 by simp
  have f3: "queue_file w3 = queue_file w" using git_do_frame [OF p] f2 by simp
  have f4: "queue_file w4 = queue_file w" using console_print_frame [OF q] f3 by simp
  show ?case
  proof (cases r1)
    case (Raised e)
    with Cons.prems a f1 show ?thesis by simp
  next
    case Returned
    note r1 = this
    show ?thesis
    proof (cases r2)
      case (Raised e)
      with Cons.prems a c r1 f2 show ?thesis by simp
    next
      case Returned
      note r2 = this
      show ?thesis
      proof (cases r3)
        case (Raised e)
        with Cons.prems a c p r1 r2 f3 show ?thesis by simp
      next
        case Returned
        note r3 = this
        show ?thesis
        proof (cases r4)
          case (Raised e)
          with Cons.prems a c p q r1 r2 r3 f4 show ?thesis by simp
        next
          case Returned
          with Cons.prems a c p q r1 r2 r3 have "drain_loop E rest w4 = (r, w')"
            by simp
          from Cons.IH [OF this] f4 show ?thesis by simp
        qed
      qed
    qed
  qed
qed

lemma drain_loop_append:
  "drain_loop E (pre @ post) w = then_do (drain_loop E pre w) (drain_loop E post)"
proof (induction pre arbitrary: w)
  case Nil
  then show ?case by simp
next
  case (Cons item rest)
  show ?case
    by (auto simp: then_do_def Cons.IH split: prod.splits outcome.splits)
qed

lemma push_queue_frame_raised:
  assumes "push_queue E probe w = (Raised e, w')"
  shows "queue_file w' = queue_file w"
proof (cases "load_queue E w")
  case (Inl e')
  then show ?thesis using assms by (simp add: push_queue_def)
next
  case (Inr queue)
  show ?thesis
  proof (cases "queue = [] \<or> is_online probe \<noteq> Inr True")
    case True
    then show ?thesis
      using assms Inr by (cases "is_online probe") (auto simp: push_queue_def split: if_splits)
  next
    case False
    obtain r1 w1 where g: "git_do E (Remote ''origin'') w = (r1, w1)"
      by (cases "git_do E (Remote ''origin'') w")
    obtain r2 w2 where d: "drain_loop E queue w1 = (r2, w2)"
      by (cases "drain_loop E queue w1")
    have f1: "queue_file w1 = queue_file w" using git_do_frame [OF g] by simp
    have f2: "queue_file w2 = queue_file w" using drain_loop_frame [OF d] f1 by simp
    show ?thesis
    proof (cases r1)
      case (Raised e1)
      then show ?thesis using assms Inr False g f1 by (simp add: push_queue_def)
    next
      case Returned
      note r1 = this
      show ?thesis
      proof (cases r2)
        case (Raised e2)
        then show ?thesis using assms Inr False g d r1 f2 by (simp add: push_queue_def)
      next
        case Returned
        then show ?thesis using assms Inr False g d r1 by (simp add: push_queue_def)
      qed
    qed
  qed
qed

text \<open>
  C1 (as amended). When the drain of the records \<open>pre @ item # post\<close> has replayed
  \<open>pre\<close> and the push of \<open>item\<close> raises, the persisted queue after the attempt is the
  whole queue the drain started from, in order: the file is as it was, and loading it
  gives \<open>pre @ item # post\<close> again. The records \<open>pre\<close> are not removed.
\<close>

theorem failed_push_leaves_whole_queue:
  assumes "load_queue E w = Inr (pre @ item # post)"
    and "is_online probe = Inr True"
    and "git_do E (Remote ''origin'') w = (Returned, w1)"
    and "drain_loop E pre w1 = (Returned, w2)"
    and "git_do E (Add (files item)) w2 = (Returned, w3)"
    and "git_do E (Commit (message item)) w3 = (Returned, w4)"
    and "git_do E Push w4 = (Raised e, w5)"
  shows "queue_file (snd (push_queue E probe w)) = queue_file w
         \<and> load_queue E (snd (push_queue E probe w)) = Inr (pre @ item # post)"
proof -
  have "drain_loop E (item # post) w2 = (Raised e, w5)"
    using assms(5,6,7) by simp
  then have loop: "drain_loop E (pre @ item # post) w1 = (Raised e, w5)"
    using assms(4) by (simp add: drain_loop_append)
  have run: "push_queue E probe w = (Raised e, w5)"
    using assms(1,2,3) loop by (simp add: push_queue_def)
  have qf: "queue_file w5 = queue_file w"
    using push_queue_frame_raised [OF run] .
  show ?thesis
    using run qf assms(1) load_queue_cong [OF qf, of E] by simp
qed

theorem failed_push_leaves_whole_queue_witness:
  "queue_file (snd (push_queue (plain_env second_push_fails) (Responded 200)
      (fresh_world (Some [rec_A, rec_B])))) = Some [rec_A, rec_B]
   \<and> load_queue (plain_env second_push_fails)
        (snd (push_queue (plain_env second_push_fails) (Responded 200)
           (fresh_world (Some [rec_A, rec_B])))) = Inr [rec_A, rec_B]"
  using failed_push_leaves_whole_queue [of "plain_env second_push_fails"
      "fresh_world (Some [rec_A, rec_B])" "[rec_A]" rec_B "[]" "Responded 200"
      "\<lparr>queue_file = Some [rec_A, rec_B], vc_log = [(Remote ''origin'', None)], console = []\<rparr>"
      "\<lparr>queue_file = Some [rec_A, rec_B],
        vc_log = [(Remote ''origin'', None), (Add [''x.py''], None), (Commit ''A'', None), (Push, None)],
        console = [PushedQueued ''2024-05-01 09:00:00'' ''A'']\<rparr>"
      "\<lparr>queue_file = Some [rec_A, rec_B],
        vc_log = [(Remote ''origin'', None), (Add [''x.py''], None), (Commit ''A'', None), (Push, None),
                  (Add [''y.py''], None)],
        console = [PushedQueued ''2024-05-01 09:00:00'' ''A'']\<rparr>"
      "\<lparr>queue_file = Some [rec_A, rec_B],
        vc_log = [(Remote ''origin'', None), (Add [''x.py''], None), (Commit ''A'', None), (Push, None),
                  (Add [''y.py''], None), (Commit ''B'', None)],
        console = [PushedQueued ''2024-05-01 09:00:00'' ''A'']\<rparr>"
      GitCommandError
      "\<lparr>queue_file = Some [rec_A, rec_B],
        vc_log = [(Remote ''origin'', None), (Add [''x.py''], None), (Commit ''A'', None), (Push, None),
                  (Add [''y.py''], None), (Commit ''B'', None), (Push, Some GitCommandError)],
        console = [PushedQueued ''2024-05-01 09:00:00'' ''A'']\<rparr>"]
  by (simp add: load_queue_def plain_env_def fresh_world_def second_push_fails_def git_do_def
      console_print_def emit_def rec_A_def rec_B_def)

text \<open>
  The claim as stated fails: with the two records \<open>rec_A\<close>, \<open>rec_B\<close> queued and the
  push of \<open>rec_B\<close> failing, the persisted queue afterwards is \<open>[rec_A, rec_B]\<close>, not
  \<open>[rec_B]\<close>, although \<open>rec_A\<close> was committed and pushed.
\<close>

theorem partial_drain_counterexample:
  "fst (push_queue (plain_env second_push_fails) (Responded 200)
          (fresh_world (Some [rec_A, rec_B]))) = Raised GitCommandError
   \<and> last (vc_log (snd (push_queue (plain_env second_push_fails) (Responded 200)
          (fresh_world (Some [rec_A, rec_B]))))) = (Push, Some GitCommandError)
   \<and> load_queue (plain_env second_push_fails)
        (snd (push_queue (plain_env second_push_fails) (Responded 200)
           (fresh_world (Some [rec_A, rec_B])))) = Inr [rec_A, rec_B]
   \<and> load_queue (plain_env second_push_fails)
        (snd (push_queue (plain_env second_push_fails) (Responded 200)
           (fresh_world (Some [rec_A, rec_B])))) \<noteq> Inr [rec_B]"
  by (simp add: push_queue_def load_queue_def plain_env_def fresh_world_def second_push_fails_def
      git_do_def console_print_def emit_def rec_A_def rec_B_def)

text \<open>
  C2. The code at a failing input: one record queued, its push raises. \<^verbatim>\<open>push_queue\<close>
  does not return; the exception leaves it, and nothing is printed about the failure.
  In the same environment \<^verbatim>\<open>commit_and_push\<close>, which guards its push with
  \<^verbatim>\<open>try\<close>/\<^verbatim>\<open>except\<close>, returns.
\<close>

theorem drain_push_failure_propagates:
  "push_queue (plain_env (failing Push GitCommandError)) (Responded 200) (fresh_world (Some [rec_A])) =
     (Raised GitCommandError,
      \<lparr>queue_file = Some [rec_A],
       vc_log = [(Remote ''origin'', None), (Add [''x.py''], None), (Commit ''A'', None),
                 (Push, Some GitCommandError)],
       console = []\<rparr>)
   \<and> fst (commit_and_push (plain_env (failing Push GitCommandError)) (Responded 200) clock_A
            ''A'' [''x.py''] (fresh_world (Some []))) = Returned"
  by (simp add: push_queue_def commit_and_push_def queue_commit_def load_queue_def plain_env_def
      fresh_world_def failing_def git_do_def console_print_def emit_def save_queue_def rec_A_def)

section \<open>Commit dispatcher\<close>

text \<open>
  What \<^verbatim>\<open>queue_commit\<close> does on a loadable queue file: the record is appended and
  saved first; the notice is printed after, so the outcome is the one of that print.
\<close>

lemma queue_commit_loaded:
  assumes "load_queue E w = Inr queue"
  shows "queue_commit E now commit_msg fs w =
           console_print E (CommitQueued commit_msg)
             (save_queue E (queue @ [record_of (probe, now, commit_msg, fs)]) w)"
  using assms by (simp add: queue_commit_def)

lemma queue_commit_saves:
  assumes "load_queue E w = Inr queue"
  shows "queue_file (snd (queue_commit E now commit_msg fs w)) =
           Some (json_dump E (queue @ [record_of (probe, now, commit_msg, fs)]))
         \<and> vc_log (snd (queue_commit E now commit_msg fs w)) = vc_log w
         \<and> fst (queue_commit E now commit_msg fs w) =
             (case rich E (CommitQueued commit_msg) of None \<Rightarrow> Returned | Some e \<Rightarrow> Raised e)
         \<and> console (snd (queue_commit E now commit_msg fs w)) =
             (case rich E (CommitQueued commit_msg) of
                None \<Rightarrow> console w @ [CommitQueued commit_msg] | Some e \<Rightarrow> console w)"
  using assms
  by (cases "rich E (CommitQueued commit_msg)") (simp_all add: queue_commit_def console_print_def)

lemma offline_dispatch_queues_one_record:
  assumes "is_online probe = Inr False"
    and "load_queue E w = Inr queue"
    and "json_load E (json_dump E (queue @ [record_of (probe, now, commit_msg, fs)])) =
           Some (queue @ [record_of (probe, now, commit_msg, fs)])"
  shows "load_queue E (snd (commit_and_push E probe now commit_msg fs w)) =
             Inr (queue @ [\<lparr>message = commit_msg, files = fs,
                             timestamp = now ''%Y-%m-%d %H:%M:%S''\<rparr>])
         \<and> vc_log (snd (commit_and_push E probe now commit_msg fs w)) = vc_log w
         \<and> (rich E (CommitQueued commit_msg) = None \<longrightarrow>
              fst (commit_and_push E probe now commit_msg fs w) = Returned
              \<and> console (snd (commit_and_push E probe now commit_msg fs w)) =
                  console w @ [CommitQueued commit_msg])"
proof -
  have run: "commit_and_push E probe now commit_msg fs w = queue_commit E now commit_msg fs w"
    using assms(1) by (simp add: commit_and_push_def)
  show ?thesis
    using queue_commit_saves [OF assms(2), of now commit_msg fs probe] assms(3)
    by (simp add: run load_queue_def)
qed

text \<open>
  C6. The code at a failing input: offline, no queue file yet, and a commit message
  holding a closing markup tag. The record is appended and saved and no call is made on
  the repository, but the print of the queued notice raises \<^verbatim>\<open>MarkupError\<close>: no
  queued notice is written and the exception leaves \<^verbatim>\<open>commit_and_push\<close>.
\<close>

theorem offline_dispatch_markup_in_message:
  "commit_and_push (markup_env always_ok [CommitQueued ''fix [/b] tag''])
      (ProbeRaised (RequestException ConnectionError)) clock_A ''fix [/b] tag'' [''a.py'']
      (fresh_world None) =
     (Raised MarkupError,
      \<lparr>queue_file = Some [\<lparr>message = ''fix [/b] tag'', files = [''a.py''],
                           timestamp = ''2024-05-01 09:00:00''\<rparr>],
       vc_log = [],
       console = []\<rparr>)"
  by (simp add: commit_and_push_def queue_commit_def load_queue_def save_queue_def
      console_print_def markup_env_def rejecting_def fresh_world_def clock_A_def)

section \<open>Commit dispatcher: what the handler covers\<close>

text \<open>
  C9. Online, an exception of the stage step or of the commit step leaves
  \<^verbatim>\<open>commit_and_push\<close> as it is. An exception \<open>e\<close> of the push step, whatever it is, is
  caught (so is one of the lookup of the remote, made inside the same \<^verbatim>\<open>try\<close>): the
  notice is printed and \<^verbatim>\<open>queue_commit\<close> runs. For a loadable queue file the record
  is then in the queue file, and \<open>e\<close> is not passed on: the dispatcher ends as the print
  of the queued notice ends, so it returns when that line is rendered.
\<close>

theorem push_guarded_stage_commit_unguarded:
  assumes "is_online probe = Inr True"
  shows "(\<forall>e w1. git_do E (Add fs) w = (Raised e, w1) \<longrightarrow>
            commit_and_push E probe now commit_msg fs w = (Raised e, w1))
       \<and> (\<forall>e w1 w2. git_do E (Add fs) w = (Returned, w1) \<and>
            git_do E (Commit commit_msg) w1 = (Raised e, w2) \<longrightarrow>
            commit_and_push E probe now commit_msg fs w = (Raised e, w2))
       \<and> (\<forall>e w1 w2 w3 queue. git_do E (Add fs) w = (Returned, w1) \<and>
            git_do E (Commit commit_msg) w1 = (Returned, w2) \<and>
            (git_do E (Remote ''origin'') w2 = (Raised e, w3) \<or>
             (\<exists>w2'. git_do E (Remote ''origin'') w2 = (Returned, w2') \<and>
                    git_do E Push w2' = (Raised e, w3))) \<and>
            load_queue E w = Inr queue \<longrightarrow>
            queue_file (snd (commit_and_push E probe now commit_msg fs w)) =
              Some (json_dump E
                      (queue @ [\<lparr>message = commit_msg, files = fs,
                                 timestamp = now ''%Y-%m-%d %H:%M:%S''\<rparr>]))
            \<and> vc_log (snd (commit_and_push E probe now commit_msg fs w)) = vc_log w3
            \<and> fst (commit_and_push E probe now commit_msg fs w) =
                (case rich E (CommitQueued commit_msg) of
                   None \<Rightarrow> Returned | Some e' \<Rightarrow> Raised e')
            \<and> console (snd (commit_and_push E probe now commit_msg fs w)) =
                (case rich E (CommitQueued commit_msg) of
                   None \<Rightarrow> console w @ [CouldNotPush, CommitQueued commit_msg]
                 | Some e' \<Rightarrow> console w @ [CouldNotPush]))"
proof (intro conjI allI impI)
  fix e w1
  assume "git_do E (Add fs) w = (Raised e, w1)"
  then show "commit_and_push E probe now commit_msg fs w = (Raised e, w1)"
    using assms by (simp add: commit_and_push_def)
next
  fix e w1 w2
  assume "git_do E (Add fs) w = (Returned, w1) \<and> git_do E (Commit commit_msg) w1 = (Raised e, w2)"
  then show "commit_and_push E probe now commit_msg fs w = (Raised e, w2)"
    using assms by (simp add: commit_and_push_def)
next
  fix e w1 w2 w3 and queue :: "queue_record list"
  assume steps: "git_do E (Add fs) w = (Returned, w1) \<and>
      git_do E (Commit commit_msg) w1 = (Returned, w2) \<and>
      (git_do E (Remote ''origin'') w2 = (Raised e, w3) \<or>
       (\<exists>w2'. git_do E (Remote ''origin'') w2 = (Returned, w2') \<and>
              git_do E Push w2' = (Raised e, w3))) \<and>
      load_queue E w = Inr queue"
  let ?w6 = "emit CouldNotPush w3"
  have caught: "commit_and_push E probe now commit_msg fs w = queue_commit E now commit_msg fs ?w6"
    using assms steps by (auto simp: commit_and_push_def console_print_def)
  have f2: "queue_file w2 = queue_file w \<and> console w2 = console w"
    using steps git_do_frame [of E "Add fs" w Returned w1]
      git_do_frame [of E "Commit commit_msg" w1 Returned w2] by simp
  have f3: "queue_file w3 = queue_file w2 \<and> console w3 = console w2"
  proof -
    from steps consider "git_do E (Remote ''origin'') w2 = (Raised e, w3)"
      | w2' where "git_do E (Remote ''origin'') w2 = (Returned, w2')" "git_do E Push w2' = (Raised e, w3)"
      by blast
    then show ?thesis
    proof cases
      case 1
      then show ?thesis using git_do_frame by blast
    next
      case 2
      then show ?thesis
        using git_do_frame [OF 2(1)] git_do_frame [OF 2(2)] by simp
    qed
  qed
  have loaded: "load_queue E ?w6 = Inr queue"
    using steps f2 f3 by (simp add: load_queue_def)
  note saved = queue_commit_saves [OF loaded, of now commit_msg fs probe]
  show "queue_file (snd (commit_and_push E probe now commit_msg fs w)) =
      Some (json_dump E
              (queue @ [\<lparr>message = commit_msg, files = fs,
                         timestamp = now ''%Y-%m-%d %H:%M:%S''\<rparr>]))"
    using saved by (simp add: caught)
  show "vc_log (snd (commit_and_push E probe now commit_msg fs w)) = vc_log w3"
    using saved by (simp add: caught)
  show "fst (commit_and_push E probe now commit_msg fs w) =
      (case rich E (CommitQueued commit_msg) of None \<Rightarrow> Returned | Some e' \<Rightarrow> Raised e')"
    using saved by (simp add: caught)
  show "console (snd (commit_and_push E probe now commit_msg fs w)) =
      (case rich E (CommitQueued commit_msg) of
         None \<Rightarrow> console w @ [CouldNotPush, CommitQueued commit_msg]
       | Some e' \<Rightarrow> console w @ [CouldNotPush])"
    using saved f2 f3 by (simp add: caught split: option.splits)
qed

theorem push_guarded_stage_commit_unguarded_witness:
  "commit_and_push (plain_env (failing (Add [''y.py'']) (OtherException ''PermissionError'')))
      (Responded 200) clock_B ''B'' [''y.py''] (fresh_world (Some [rec_A])) =
     (Raised (OtherException ''PermissionError''),
      \<lparr>queue_file = Some [rec_A],
       vc_log = [(Add [''y.py''], Some (OtherException ''PermissionError''))],
       console = []\<rparr>)
   \<and> commit_and_push (plain_env (failing (Commit ''B'') GitCommandError))
      (Responded 200) clock_B ''B'' [''y.py''] (fresh_world (Some [rec_A])) =
     (Raised GitCommandError,
      \<lparr>queue_file = Some [rec_A],
       vc_log = [(Add [''y.py''], None), (Commit ''B'', Some GitCommandError)],
       console = []\<rparr>)
   \<and> commit_and_push (plain_env (failing Push KeyboardInterrupt))
      (Responded 200) clock_B ''B'' [''y.py''] (fresh_world (Some [rec_A])) =
     (Returned,
      \<lparr>queue_file = Some [rec_A, rec_B],
       vc_log = [(Add [''y.py''], None), (Commit ''B'', None), (Remote ''origin'', None),
                 (Push, Some KeyboardInterrupt)],
       console = [CouldNotPush, CommitQueued ''B'']\<rparr>)
   \<and> commit_and_push (markup_env (failing Push GitCommandError) [CommitQueued ''fix [/b] tag''])
      (Responded 200) clock_B ''fix [/b] tag'' [''y.py''] (fresh_world (Some [rec_A])) =
     (Raised MarkupError,
      \<lparr>queue_file = Some [rec_A, \<lparr>message = ''fix [/b] tag'', files = [''y.py''],
                                   timestamp = ''2024-05-01 09:05:00''\<rparr>],
       vc_log = [(Add [''y.py''], None), (Commit ''fix [/b] tag'', None), (Remote ''origin'', None),
                 (Push, Some GitCommandError)],
       console = [CouldNotPush]\<rparr>)"
  using
    push_guarded_stage_commit_unguarded [of "Responded 200"
      "markup_env (failing Push GitCommandError) [CommitQueued ''fix [/b] tag'']" "[''y.py'']"
      "fresh_world (Some [rec_A])" clock_B "''fix [/b] tag''"]
    push_guarded_stage_commit_unguarded [of "Responded 200"
      "plain_env (failing (Add [''y.py'']) (OtherException ''PermissionError''))" "[''y.py'']"
      "fresh_world (Some [rec_A])" clock_B "''B''"]
    push_guarded_stage_commit_unguarded [of "Responded 200"
      "plain_env (failing (Commit ''B'') GitCommandError)" "[''y.py'']"
      "fresh_world (Some [rec_A])" clock_B "''B''"]
    push_guarded_stage_commit_unguarded [of "Responded 200"
      "plain_env (failing Push KeyboardInterrupt)" "[''y.py'']"
      "fresh_world (Some [rec_A])" clock_B "''B''"]
  by (simp add: commit_and_push_def queue_commit_def load_queue_def plain_env_def
      markup_env_def rejecting_def fresh_world_def failing_def git_do_def console_print_def
      emit_def save_queue_def rec_A_def rec_B_def clock_B_def)

section \<open>Order of replay\<close>












text \<open>
  A run of the same scenario where the first message holds a closing markup tag: both
  records are queued in order, the drain pushes the first and stops at the print of its
  line, and the queue file is left as it was.
\<close>

lemma drain_stops_at_markup_line:
  "load_queue (markup_env always_ok
        [CommitQueued ''fix [/b] tag'', PushedQueued ''2024-05-01 09:00:00'' ''fix [/b] tag''])
     (dispatch_all (markup_env always_ok
           [CommitQueued ''fix [/b] tag'', PushedQueued ''2024-05-01 09:00:00'' ''fix [/b] tag''])
        [(ProbeRaised (RequestException Timeout), clock_A, ''fix [/b] tag'', [''x.py'']),
         (ProbeRaised (RequestException Timeout), clock_B, ''B'', [''y.py''])]
        (fresh_world None)) =
     Inr [\<lparr>message = ''fix [/b] tag'', files = [''x.py''], timestamp = ''2024-05-01 09:00:00''\<rparr>,
          rec_B]
   \<and> push_queue (markup_env always_ok
        [CommitQueued ''fix [/b] tag'', PushedQueued ''2024-05-01 09:00:00'' ''fix [/b] tag''])
      (Responded 200)
      (fresh_world (Some [\<lparr>message = ''fix [/b] tag'', files = [''x.py''],
                             timestamp = ''2024-05-01 09:00:00''\<rparr>, rec_B])) =
     (Raised MarkupError,
      \<lparr>queue_file = Some [\<lparr>message = ''fix [/b] tag'', files = [''x.py''],
                           timestamp = ''2024-05-01 09:00:00''\<rparr>, rec_B],
       vc_log = [(Remote ''origin'', None), (Add [''x.py''], None),
                 (Commit ''fix [/b] tag'', None), (Push, None)],
       console = []\<rparr>)"
  by (simp add: push_queue_def commit_and_push_def queue_commit_def load_queue_def save_queue_def
      console_print_def emit_def git_do_def markup_env_def rejecting_def always_ok_def
      fresh_world_def rec_B_def clock_A_def clock_B_def)

section \<open>Status reporter\<close>

lemma check_push_status_fetch_fails:
  assumes "git_do E (Remote ''origin'') w = (Returned, w1)"
    and "git_do E Fetch w1 = (Raised e, w2)"
  shows "check_push_status E R w = (Returned, emit FetchFailed w2)"
  using assms by (simp add: check_push_status_def console_print_def)

lemma check_push_status_all_pushed_iff:
  assumes "git_do E (Remote ''origin'') w = (Returned, w1)"
    and "git_do E Fetch w1 = (Returned, w2)"
    and "\<not> head_detached R"
    and "iter_commits R ActiveBranch OriginBranch = Inr unpushed"
    and "load_queue E w2 = Inr queued"
  shows "check_push_status E R w = (Returned, emit AllPushed w2) \<longleftrightarrow>
           unpushed = [] \<and> queued = [] \<and> index_diff R = []"
proof (cases "unpushed = [] \<and> queued = [] \<and> index_diff R = []")
  case True
  then show ?thesis
    using assms by (simp add: check_push_status_def console_print_def)
next
  case False
  let ?S = "StagedNotCommitted (index_diff R)"
  let ?U = "CommitsNotPushed (map (take 7) unpushed)"
  let ?Q = "QueuedOffline (map message queued)"
  obtain r3 w3 where s3: "print_when (index_diff R \<noteq> []) E ?S w2 = (r3, w3)"
    by (cases "print_when (index_diff R \<noteq> []) E ?S w2")
  obtain r4 w4 where s4: "print_when (unpushed \<noteq> []) E ?U w3 = (r4, w4)"
    by (cases "print_when (unpushed \<noteq> []) E ?U w3")
  obtain r5 w5 where s5: "print_when (queued \<noteq> []) E ?Q w4 = (r5, w5)"
    by (cases "print_when (queued \<noteq> []) E ?Q w4")
  have no_all: "AllPushed \<notin> set (console w') \<or> AllPushed \<in> set (console w0)"
    if "print_when b E ev w0 = (r, w')" "ev \<noteq> AllPushed" for b ev w0 r w'
    using that by (cases rule: console_print_cases [of E ev w0]) (auto simp: print_when_def split: if_splits)
  have run: "check_push_status E R w =
      then_do (r3, w3) (\<lambda>w3. then_do (print_when (unpushed \<noteq> []) E ?U w3)
        (\<lambda>w4. print_when (queued \<noteq> []) E ?Q w4))"
    using assms False s3 by (auto simp add: check_push_status_def Let_def)
  have "console (snd (check_push_status E R w)) \<noteq> console w2 @ [AllPushed]"
  proof -
    have len: "console w' = console w0 \<or> console w' = console w0 @ [ev]"
      if "print_when b E ev w0 = (r, w')" for b ev w0 r w'
      using that by (cases rule: console_print_cases [of E ev w0]) (auto simp: print_when_def split: if_splits)
    have c3: "console w3 = console w2 \<or> console w3 = console w2 @ [?S]" using len [OF s3] .
    have c4: "console w4 = console w3 \<or> console w4 = console w3 @ [?U]" using len [OF s4] .
    have c5: "console w5 = console w4 \<or> console w5 = console w4 @ [?Q]" using len [OF s5] .
    have "snd (check_push_status E R w) = w3 \<or> snd (check_push_status E R w) = w4
        \<or> snd (check_push_status E R w) = w5"
      using run s4 s5 by (cases r3; cases r4) auto
    moreover have "console w3 \<noteq> console w2 @ [AllPushed]" using c3 by auto
    moreover have "console w4 \<noteq> console w2 @ [AllPushed]" using c3 c4 by auto
    moreover have "console w5 \<noteq> console w2 @ [AllPushed]" using c3 c4 c5 by auto
    ultimately show ?thesis by auto
  qed
  then have "check_push_status E R w \<noteq> (Returned, emit AllPushed w2)"
    by auto
  then show ?thesis using False by simp
qed

text \<open>
  C5. The code at a failing input: the active branch holds the commit \<open>b7e2\<close>\<dots> on
  top of the commit the remote-tracking branch is at, nothing is queued and the working
  tree is clean. The commits of the local history that the fetched remote tip lacks are
  \<open>[b7e2\<dots>]\<close>, yet the range the code asks for, \<open>active..origin/active\<close>, is empty
  and the report is that everything is pushed. With the two histories exchanged, the
  report lists as not pushed a commit that only the remote has.
\<close>

theorem check_push_status_range_reversed:
  "iter_commits
      \<lparr>head_detached = False, branch_commits = Some [''b7e2d3c19f'', ''a41c0de552''],
       tracking_commits = Some [''a41c0de552''], index_diff = []\<rparr> OriginBranch ActiveBranch
     = Inr [''b7e2d3c19f'']
   \<and> check_push_status (plain_env always_ok)
      \<lparr>head_detached = False, branch_commits = Some [''b7e2d3c19f'', ''a41c0de552''],
       tracking_commits = Some [''a41c0de552''], index_diff = []\<rparr> (fresh_world (Some []))
     = (Returned,
        \<lparr>queue_file = Some [],
         vc_log = [(Remote ''origin'', None), (Fetch, None)],
         console = [AllPushed]\<rparr>)
   \<and> iter_commits
      \<lparr>head_detached = False, branch_commits = Some [''a41c0de552''],
       tracking_commits = Some [''b7e2d3c19f'', ''a41c0de552''], index_diff = []\<rparr>
      OriginBranch ActiveBranch
     = Inr []
   \<and> check_push_status (plain_env always_ok)
      \<lparr>head_detached = False, branch_commits = Some [''a41c0de552''],
       tracking_commits = Some [''b7e2d3c19f'', ''a41c0de552''], index_diff = []\<rparr>
      (fresh_world (Some []))
     = (Returned,
        \<lparr>queue_file = Some [],
         vc_log = [(Remote ''origin'', None), (Fetch, None)],
         console = [CommitsNotPushed [''b7e2d3c'']]\<rparr>)"
  by (simp add: check_push_status_def iter_commits_def load_queue_def plain_env_def
      fresh_world_def always_ok_def git_do_def emit_def console_print_def print_when_def)

section \<open>Project registration\<close>

lemma update_other_entries:
  "filter (\<lambda>kv. fst kv \<noteq> k) (AList.update k v al) = filter (\<lambda>kv. fst kv \<noteq> k) al"
  by (induction al) auto

text \<open>
  C10 (as amended). On a registry file that parses, the script writes the registry with
  the entry of the entered name, stripped of surrounding whitespace, set to the entered
  path, stripped as well: every entry under another name is kept, in its place and with
  its path; the default project becomes the entered name when the answer, stripped and
  lower-cased, is \<open>y\<close>, and is kept otherwise.
\<close>

theorem add_project_keeps_other_entries:
  assumes "registry_load P content = Some d"
  shows "add_project P name_typed path_typed answer_typed (Some content) =
           Inr (registry_dump P
                  \<lparr>projects = AList.update (strip name_typed) (strip path_typed) (projects d),
                   default_project =
                     (if lower (strip answer_typed) = ''y'' then Some (strip name_typed)
                      else default_project d)\<rparr>,
                ProjectAdded (strip name_typed))
       \<and> filter (\<lambda>kv. fst kv \<noteq> strip name_typed)
            (AList.update (strip name_typed) (strip path_typed) (projects d)) =
          filter (\<lambda>kv. fst kv \<noteq> strip name_typed) (projects d)
       \<and> (\<forall>k. k \<noteq> strip name_typed \<longrightarrow>
            map_of (AList.update (strip name_typed) (strip path_typed) (projects d)) k =
            map_of (projects d) k)
       \<and> map_of (AList.update (strip name_typed) (strip path_typed) (projects d))
            (strip name_typed) = Some (strip path_typed)"
proof -
  have shape: "d\<lparr>projects := ps, default_project := df\<rparr> = \<lparr>projects = ps, default_project = df\<rparr>"
    "d\<lparr>projects := ps\<rparr> = \<lparr>projects = ps, default_project = default_project d\<rparr>" for ps df
    by (cases d, simp)+
  have run: "add_project P name_typed path_typed answer_typed (Some content) =
           Inr (registry_dump P
                  \<lparr>projects = AList.update (strip name_typed) (strip path_typed) (projects d),
                   default_project =
                     (if lower (strip answer_typed) = ''y'' then Some (strip name_typed)
                      else default_project d)\<rparr>,
                ProjectAdded (strip name_typed))"
    using assms by (simp add: add_project_def Let_def shape)
  show ?thesis
    using run by (simp add: update_other_entries AList.update_conv')
qed

theorem add_project_keeps_other_entries_witness:
  "add_project plain_registry (CHR 0xA0 # ''web '') ''/srv/web '' ''n''
      (Some \<lparr>projects = [(''api'', ''/srv/api''), (''web'', ''/old/web''), (''cli'', ''/srv/cli'')],
             default_project = Some ''api''\<rparr>) =
     Inr (\<lparr>projects = [(''api'', ''/srv/api''), (''web'', ''/srv/web''), (''cli'', ''/srv/cli'')],
           default_project = Some ''api''\<rparr>,
          ProjectAdded ''web'')
   \<and> add_project plain_registry ''doc'' ''/srv/doc'' (CHR 0x85 # '' Y '')
      (Some \<lparr>projects = [(''api'', ''/srv/api'')], default_project = None\<rparr>) =
     Inr (\<lparr>projects = [(''api'', ''/srv/api''), (''doc'', ''/srv/doc'')],
           default_project = Some ''doc''\<rparr>,
          ProjectAdded ''doc'')"
  using add_project_keeps_other_entries [of plain_registry
      "\<lparr>projects = [(''api'', ''/srv/api''), (''web'', ''/old/web''), (''cli'', ''/srv/cli'')],
        default_project = Some ''api''\<rparr>"
      "\<lparr>projects = [(''api'', ''/srv/api''), (''web'', ''/old/web''), (''cli'', ''/srv/cli'')],
        default_project = Some ''api''\<rparr>"
      "CHR 0xA0 # ''web ''" "''/srv/web ''" "''n''"]
    add_project_keeps_other_entries [of plain_registry
      "\<lparr>projects = [(''api'', ''/srv/api'')], default_project = None\<rparr>"
      "\<lparr>projects = [(''api'', ''/srv/api'')], default_project = None\<rparr>"
      "''doc''" "''/srv/doc''" "CHR 0x85 # '' Y ''"]
  by (simp add: plain_registry_def strip_def lower_def lower_char_def is_space_def char_of_eq_iff)

text \<open>
  The claim as stated fails: the answer \<open>Y\<close> is not \<open>y\<close>, and the default project
  changes from \<open>api\<close> to the entered name all the same.
\<close>

theorem add_project_default_counterexample:
  "''Y'' \<noteq> ''y''
   \<and> add_project plain_registry ''web'' ''/srv/web'' ''Y''
        (Some \<lparr>projects = [(''api'', ''/srv/api'')], default_project = Some ''api''\<rparr>) =
       Inr (\<lparr>projects = [(''api'', ''/srv/api''), (''web'', ''/srv/web'')],
             default_project = Some ''web''\<rparr>,
            ProjectAdded ''web'')"
  by (simp add: add_project_def plain_registry_def strip_def lower_def lower_char_def
      is_space_def Let_def char_of_eq_iff)

end
